theory Spec2Isabelle
  imports Complex_Main
begin

section \<open>The weather service of ShoreSquad (js/app.js, class SingaporeWeatherService)\<close>

text \<open>
  The embedding follows \<^verbatim>\<open>src/js/app.js\<close>, lines 645 to 885. JavaScript strings are
  modelled as \<^typ>\<open>string\<close>; every string the code compares against is ASCII, and the one
  non-ASCII literal of the source (the degree sign of the temperature display, stored in
  the file as the two code units 0xC2 and 0xB0) fits in two characters. JSON numbers are
  finite and are modelled as \<^typ>\<open>real\<close>: the code only compares them with integer
  constants and rounds them.
\<close>

subsection \<open>String primitives\<close>

text \<open>\<^verbatim>\<open>String.prototype.toLowerCase\<close>, on the ASCII letters.\<close>

definition lowerChar :: "char \<Rightarrow> char" where
  "lowerChar c =
     (case map_of (zip ''ABCDEFGHIJKLMNOPQRSTUVWXYZ'' ''abcdefghijklmnopqrstuvwxyz'') c of
        None \<Rightarrow> c
      | Some d \<Rightarrow> d)"

definition toLowerCase :: "string \<Rightarrow> string" where
  "toLowerCase s = map lowerChar s"

text \<open>
  \<^verbatim>\<open>String.prototype.includes\<close> (the bare name is reserved in Isabelle, hence the
  suffix): the needle occurs at some position of the text.
\<close>

fun startsWith :: "string \<Rightarrow> string \<Rightarrow> bool" where
  "startsWith s [] = True"
| "startsWith [] (c # cs) = False"
| "startsWith (x # xs) (c # cs) = (x = c \<and> startsWith xs cs)"

fun includesStr :: "string \<Rightarrow> string \<Rightarrow> bool" where
  "includesStr [] t = startsWith [] t"
| "includesStr (x # xs) t = (startsWith (x # xs) t \<or> includesStr xs t)"

subsection \<open>The icon and recommendation mappers\<close>

definition getWeatherIcon :: "string \<Rightarrow> string" where
  "getWeatherIcon forecast =
     (let weatherLower = toLowerCase forecast in
      if includesStr weatherLower ''thundery'' \<or> includesStr weatherLower ''thunder''
        then ''fa-bolt''
      else if includesStr weatherLower ''heavy rain'' \<or> includesStr weatherLower ''heavy shower''
        then ''fa-cloud-rain''
      else if includesStr weatherLower ''rain'' \<or> includesStr weatherLower ''shower''
        then ''fa-cloud-drizzle''
      else if includesStr weatherLower ''cloudy'' then ''fa-cloud''
      else if includesStr weatherLower ''partly cloudy'' \<or> includesStr weatherLower ''fair''
        then ''fa-cloud-sun''
      else if includesStr weatherLower ''hazy'' \<or> includesStr weatherLower ''mist''
        then ''fa-smog''
      else ''fa-sun'')"

definition getCleanupRecommendation :: "string \<Rightarrow> string" where
  "getCleanupRecommendation forecast =
     (let weatherLower = toLowerCase forecast in
      if includesStr weatherLower ''thundery'' \<or> includesStr weatherLower ''heavy rain''
        then ''Not ideal for cleanup''
      else if includesStr weatherLower ''rain'' \<or> includesStr weatherLower ''shower''
        then ''Consider postponing''
      else if includesStr weatherLower ''fair'' \<or> includesStr weatherLower ''sunny''
        then ''Perfect for cleanup!''
      else if includesStr weatherLower ''partly cloudy'' then ''Great conditions!''
      else if includesStr weatherLower ''cloudy'' then ''Good for cleanup!''
      else if includesStr weatherLower ''hazy'' then ''Okay, but stay hydrated''
      else ''Check conditions!'')"

subsection \<open>The suitability scorer\<close>

text \<open>
  The three adjustments of \<^verbatim>\<open>calculateSuitabilityScore\<close> are successive updates of the
  local variable \<^verbatim>\<open>score\<close>; the function does not lower-case its first argument (its
  caller does).
\<close>

definition calculateSuitabilityScore :: "string \<Rightarrow> real \<Rightarrow> real \<Rightarrow> int" where
  "calculateSuitabilityScore weather temp humidity =
     (let score = 5;
          score = (if includesStr weather ''fair'' \<or> includesStr weather ''sunny'' then score + 3
                   else if includesStr weather ''partly cloudy'' then score + 2
                   else if includesStr weather ''cloudy'' then score + 1
                   else if includesStr weather ''rain'' \<or> includesStr weather ''shower''
                     then score - 3
                   else if includesStr weather ''thundery'' then score - 5
                   else score);
          score = (if temp \<ge> 24 \<and> temp \<le> 32 then score + 1
                   else if temp > 32 then score - 1
                   else score);
          score = (if humidity < 70 then score + 1
                   else if humidity > 85 then score - 1
                   else score)
      in max 0 (min 10 score))"

definition getCleanupSuitability :: "string \<Rightarrow> real \<Rightarrow> real \<Rightarrow> string" where
  "getCleanupSuitability forecast tempHigh humidity =
     (let weatherLower = toLowerCase forecast;
          score = calculateSuitabilityScore weatherLower tempHigh humidity
      in if score \<ge> 8 then ''Excellent''
         else if score \<ge> 6 then ''Good''
         else if score \<ge> 4 then ''Fair''
         else ''Poor'')"

subsection \<open>The feeds\<close>

text \<open>
  The payloads have the shape the three endpoints document. A nested JSON field is
  flattened into one record field (\<^verbatim>\<open>day.temperature.high\<close> is \<open>temperature_high\<close>),
  \<^verbatim>\<open>data.items\<close> is the list itself, and the optional \<^verbatim>\<open>day.wind\<close> is an option
  holding \<^verbatim>\<open>wind.speed.high\<close>.
\<close>

record area_forecast =
  area :: string
  forecast :: string

record forecast_item =
  timestamp :: string
  forecasts :: "area_forecast list"

record reading =
  station_id :: string
  reading_value :: real

record temp_item =
  readings :: "reading list"

record day =
  day_date :: string
  day_forecast :: string
  temperature_high :: real
  temperature_low :: real
  relative_humidity_high :: real
  relative_humidity_low :: real
  day_wind :: "real option"

record four_day_item =
  day_forecasts :: "day list"

text \<open>
  What \<^verbatim>\<open>await fetch(url)\<close> gives: the promise rejects (a transport failure), or it
  resolves to a response with its \<^verbatim>\<open>ok\<close> flag and a body; the body is \<open>None\<close> when
  \<^verbatim>\<open>response.json()\<close> rejects.
\<close>

datatype 'a response = Rejected | Response bool "'a option"

text \<open>
  The exceptions of the pipeline: a rejected fetch, an \<^verbatim>\<open>Error\<close> thrown with a message,
  a body that is not JSON, and a property read on \<^verbatim>\<open>undefined\<close>.
\<close>

datatype error = FetchFailed | Error string | SyntaxError | TypeError

text \<open>\<^verbatim>\<open>try { body } catch (error) { handler }\<close>\<close>

definition tryCatch :: "error + 'a \<Rightarrow> (error \<Rightarrow> error + 'a) \<Rightarrow> error + 'a" where
  "tryCatch body handler = (case body of Inl e \<Rightarrow> handler e | Inr v \<Rightarrow> Inr v)"

subsection \<open>Formatting\<close>

text \<open>
  The relational operators of JavaScript compare two strings code unit by code unit;
  \<open>strLe a b\<close> is \<^verbatim>\<open>a <= b\<close>.
\<close>

fun strLe :: "string \<Rightarrow> string \<Rightarrow> bool" where
  "strLe [] b = True"
| "strLe (x # xs) [] = False"
| "strLe (x # xs) (y # ys) = (if x = y then strLe xs ys else (of_char x :: nat) < of_char y)"

text \<open>
  \<^verbatim>\<open>Math.round\<close> rounds to the nearest integer, a tie going up. The template literal
  prints the rounded number in decimal digits (as JavaScript does below \<open>10^21\<close>).
\<close>

definition mathRound :: "real \<Rightarrow> int" where
  "mathRound x = \<lfloor>x + 1 / 2\<rfloor>"

fun showNat :: "nat \<Rightarrow> string" where
  "showNat n =
     (if n < 10 then [''0123456789'' ! n]
      else showNat (n div 10) @ [''0123456789'' ! (n mod 10)])"

declare showNat.simps [simp del]

definition showInt :: "int \<Rightarrow> string" where
  "showInt i = (if i < 0 then CHR ''-'' # showNat (nat (- i)) else showNat (nat i))"

text \<open>The unit suffix of a temperature, as the source file stores it.\<close>

definition degreesC :: string where
  "degreesC = [CHR 0xC2, CHR 0xB0, CHR ''C'']"

text \<open>\<^verbatim>\<open>replace(/\s+/g, '-')\<close>: every maximal run of white space becomes one dash.\<close>

definition isSpace :: "char \<Rightarrow> bool" where
  "isSpace c = (c \<in> set [CHR '' '', CHR 0x09, CHR 0x0A, CHR 0x0B, CHR 0x0C, CHR 0x0D, CHR 0xA0])"

fun dashSpaces :: "bool \<Rightarrow> string \<Rightarrow> string" where
  "dashSpaces inRun [] = []"
| "dashSpaces inRun (c # cs) =
     (if isSpace c then (if inRun then dashSpaces True cs else CHR ''-'' # dashSpaces True cs)
      else c # dashSpaces False cs)"

text \<open>
  What the browser provides and the code only calls: the locale date of
  \<^verbatim>\<open>new Date(d).toLocaleDateString('en-SG', ...)\<close> and the conversion of a number to a
  string inside a template literal.
\<close>

record host =
  toLocaleDateString :: "string \<Rightarrow> string"
  numberToString :: "real \<Rightarrow> string"

subsection \<open>Current conditions\<close>

record weather =
  temp :: string
  icon :: string
  desc :: string
  condition :: "string option"

definition processWeatherData :: "string \<Rightarrow> string \<Rightarrow> weather" where
  "processWeatherData fc temperature =
     \<lparr>temp = temperature,
      icon = getWeatherIcon fc,
      desc = getCleanupRecommendation fc,
      condition = Some (dashSpaces False (toLowerCase fc))\<rparr>"

text \<open>
  The local constants of \<^verbatim>\<open>getCurrentWeather\<close>, each under its own name. \<open>None\<close> is
  \<^verbatim>\<open>undefined\<close>: \<^verbatim>\<open>find\<close> returns it when no element passes, and so does
  \<^verbatim>\<open>xs[0]\<close> on an empty array; an object is truthy, so \<^verbatim>\<open>a || b\<close> is \<open>b\<close> exactly
  when \<open>a\<close> is \<^verbatim>\<open>undefined\<close>.
\<close>

definition latestForecast :: "string \<Rightarrow> forecast_item list \<Rightarrow> forecast_item option" where
  "latestForecast currentTime items =
     (case find (\<lambda>item. strLe (timestamp item) currentTime) items of
        Some item \<Rightarrow> Some item
      | None \<Rightarrow> (case items of [] \<Rightarrow> None | item # _ \<Rightarrow> Some item))"

definition pasirRisForecast :: "area_forecast list \<Rightarrow> area_forecast option" where
  "pasirRisForecast fcs =
     (case find (\<lambda>fc. includesStr (toLowerCase (area fc)) ''pasir ris'' \<or>
                       includesStr (toLowerCase (area fc)) ''east'') fcs of
        Some fc \<Rightarrow> Some fc
      | None \<Rightarrow> (case fcs of [] \<Rightarrow> None | fc # _ \<Rightarrow> Some fc))"

definition eastTemp :: "reading list \<Rightarrow> reading option" where
  "eastTemp rs = find (\<lambda>r. station_id r = ''S07'' \<or> station_id r = ''S43'') rs"

definition defaultTemperature :: string where
  "defaultTemperature = ''28'' @ degreesC"

text \<open>
  The value of the variable \<^verbatim>\<open>temperature\<close> once the temperature response has arrived:
  the default unless the response is ok; reading \<^verbatim>\<open>latestTemp.readings\<close> throws when
  \<^verbatim>\<open>tempData.items\<close> is empty.
\<close>

definition temperature :: "bool \<Rightarrow> temp_item list option \<Rightarrow> error + string" where
  "temperature tempOk tempBody =
     (if tempOk then
        (case tempBody of
           None \<Rightarrow> Inl SyntaxError
         | Some tempItems \<Rightarrow>
             (case tempItems of
                [] \<Rightarrow> Inl TypeError
              | latestTemp # _ \<Rightarrow>
                  (case eastTemp (readings latestTemp) of
                     Some r \<Rightarrow> Inr (showInt (mathRound (reading_value r)) @ degreesC)
                   | None \<Rightarrow> Inr defaultTemperature)))
      else Inr defaultTemperature)"

text \<open>
  \<^verbatim>\<open>getCurrentWeather\<close>, in the order of its statements: the condition feed, the two
  selections, the temperature feed, and only then the read of
  \<^verbatim>\<open>pasirRisForecast.forecast\<close>, which throws when the selected batch has no area entry.
  Its \<^verbatim>\<open>catch\<close> logs and throws the error again.
\<close>

definition getCurrentWeather ::
  "string \<Rightarrow> forecast_item list response \<Rightarrow> temp_item list response \<Rightarrow> error + weather" where
  "getCurrentWeather currentTime response tempResponse =
     tryCatch
       (case response of
          Rejected \<Rightarrow> Inl FetchFailed
        | Response ok body \<Rightarrow>
            if \<not> ok then Inl (Error ''Weather API unavailable'')
            else
              (case body of
                 None \<Rightarrow> Inl SyntaxError
               | Some items \<Rightarrow>
                   (case latestForecast currentTime items of
                      None \<Rightarrow> Inl TypeError
                    | Some latest \<Rightarrow>
                        (case tempResponse of
                           Rejected \<Rightarrow> Inl FetchFailed
                         | Response tempOk tempBody \<Rightarrow>
                             (case temperature tempOk tempBody of
                                Inl e \<Rightarrow> Inl e
                              | Inr t \<Rightarrow>
                                  (case pasirRisForecast (forecasts latest) of
                                     None \<Rightarrow> Inl TypeError
                                   | Some fc \<Rightarrow> Inr (processWeatherData (forecast fc) t)))))))
       (\<lambda>error. Inl error)"

subsection \<open>The daily outlook\<close>

text \<open>
  The object built for each day; its \<^verbatim>\<open>icon\<close> field is \<open>forecastIcon\<close> here, the name
  \<open>icon\<close> being the field of the current conditions.
\<close>

record outlook =
  date :: string
  weather :: string
  tempHigh :: string
  tempLow :: string
  humidity :: string
  wind :: string
  forecastIcon :: string
  cleanupSuitability :: string

definition dailyOutlook :: "host \<Rightarrow> day \<Rightarrow> outlook" where
  "dailyOutlook h d =
     \<lparr>date = toLocaleDateString h (day_date d),
      weather = day_forecast d,
      tempHigh = numberToString h (temperature_high d) @ degreesC,
      tempLow = numberToString h (temperature_low d) @ degreesC,
      humidity = numberToString h (relative_humidity_high d) @ ''%'',
      wind = (case day_wind d of Some w \<Rightarrow> numberToString h w @ '' km/h'' | None \<Rightarrow> ''Light''),
      forecastIcon = getWeatherIcon (day_forecast d),
      cleanupSuitability =
        getCleanupSuitability (day_forecast d) (temperature_high d) (relative_humidity_high d)\<rparr>"

text \<open>\<^verbatim>\<open>getWeatherForecast\<close>: its \<^verbatim>\<open>catch\<close> logs and returns the empty list.\<close>

definition getWeatherForecast :: "host \<Rightarrow> four_day_item list response \<Rightarrow> error + outlook list" where
  "getWeatherForecast h response =
     tryCatch
       (case response of
          Rejected \<Rightarrow> Inl FetchFailed
        | Response ok body \<Rightarrow>
            if \<not> ok then Inl (Error ''Forecast API unavailable'')
            else
              (case body of
                 None \<Rightarrow> Inl SyntaxError
               | Some items \<Rightarrow>
                   (case items of
                      [] \<Rightarrow> Inl TypeError
                    | item # _ \<Rightarrow> Inr (map (dailyOutlook h) (take 5 (day_forecasts item))))))
       (\<lambda>error. Inr [])"

subsection \<open>Rendering and the pipeline\<close>

text \<open>
  The part of the page the service writes. An element that the page lacks is \<open>None\<close>
  (\<^verbatim>\<open>querySelector\<close> returns \<^verbatim>\<open>null\<close>). The forecast container holds the days its grid
  shows, the empty list while nothing has been rendered into it.
\<close>

record dom =
  weatherTemp :: "string option"
  weatherIcon :: "string option"
  weatherDesc :: "string option"
  weatherWidget :: bool
  forecastContainer :: "outlook list option"

definition renderWeather :: "weather \<Rightarrow> dom \<Rightarrow> dom" where
  "renderWeather data d =
     d\<lparr>weatherTemp := map_option (\<lambda>_. temp data) (weatherTemp d),
       weatherIcon := map_option (\<lambda>_. ''fas '' @ icon data @ '' weather-icon'') (weatherIcon d),
       weatherDesc := map_option (\<lambda>_. desc data) (weatherDesc d)\<rparr>"

definition createForecastContainer :: "dom \<Rightarrow> dom" where
  "createForecastContainer d = (if weatherWidget d then d\<lparr>forecastContainer := Some []\<rparr> else d)"

definition renderForecast :: "outlook list \<Rightarrow> dom \<Rightarrow> dom" where
  "renderForecast forecastData d =
     (let d1 = (if forecastContainer d = None \<and> length forecastData > 0
                then createForecastContainer d else d)
      in if forecastContainer d1 \<noteq> None \<and> length forecastData > 0
         then d1\<lparr>forecastContainer := Some forecastData\<rparr>
         else d1)"

definition renderFallbackWeather :: "dom \<Rightarrow> dom" where
  "renderFallbackWeather d =
     renderWeather \<lparr>temp = ''28'' @ degreesC, icon = ''fa-sun'', desc = ''Check local weather!'',
                    condition = None\<rparr> d"

text \<open>
  One run of the pipeline, \<^verbatim>\<open>updateWeatherDisplay\<close>, on the page \<open>d\<close>. Its inputs are the
  clock and what each feed answers; the two renders come after both awaits, so a run that
  fails has written nothing before its \<^verbatim>\<open>catch\<close> renders the fallback.
\<close>

definition updateWeatherDisplay ::
  "host \<Rightarrow> string \<Rightarrow> forecast_item list response \<Rightarrow> temp_item list response \<Rightarrow>
   four_day_item list response \<Rightarrow> dom \<Rightarrow> error + dom" where
  "updateWeatherDisplay h currentTime response tempResponse forecastResponse d =
     tryCatch
       (case getCurrentWeather currentTime response tempResponse of
          Inl e \<Rightarrow> Inl e
        | Inr weatherData \<Rightarrow>
            (case getWeatherForecast h forecastResponse of
               Inl e \<Rightarrow> Inl e
             | Inr forecastData \<Rightarrow> Inr (renderForecast forecastData (renderWeather weatherData d))))
       (\<lambda>error. Inr (renderFallbackWeather d))"
subsection \<open>Failing feeds and sample inputs\<close>

text \<open>
  A feed is unavailable when its fetch rejects or its response is not ok. It has failed
  when, in addition, an ok response has no JSON body or an empty item list. The
  temperature feed aborts the run in the cases of failure other than a response that is
  not ok.
\<close>

definition unavailable :: "'a response \<Rightarrow> bool" where
  "unavailable r = (case r of Rejected \<Rightarrow> True | Response ok body \<Rightarrow> \<not> ok)"



text \<open>
  A host that shows a date as it is given and a number by the decimal digits of its
  integer part, a page that has the three elements of the weather widget and no forecast
  container yet, and a condition feed with one batch.
\<close>

definition exampleHost :: host where
  "exampleHost = \<lparr>toLocaleDateString = id, numberToString = (\<lambda>x. showInt \<lfloor>x\<rfloor>)\<rparr>"

definition examplePage :: dom where
  "examplePage = \<lparr>weatherTemp = Some ''--'', weatherIcon = Some ''fas weather-icon'',
     weatherDesc = Some ''Loading'', weatherWidget = True, forecastContainer = None\<rparr>"


section \<open>Properties\<close>

subsection \<open>Substrings\<close>

lemma startsWith_iff: "startsWith s t \<longleftrightarrow> (\<exists>ss. s = t @ ss)"
  by (induction s t rule: startsWith.induct) auto

lemma includesStr_iff: "includesStr s t \<longleftrightarrow> (\<exists>ps ss. s = ps @ t @ ss)"
proof (induction s)
  case Nil
  then show ?case by (simp add: startsWith_iff)
next
  case (Cons x xs)
  show ?case
  proof
    assume "includesStr (x # xs) t"
    then consider "startsWith (x # xs) t" | "includesStr xs t" by auto
    then show "\<exists>ps ss. x # xs = ps @ t @ ss"
    proof cases
      case 1
      then obtain ss where "x # xs = t @ ss" by (auto simp: startsWith_iff)
      then have "x # xs = [] @ t @ ss" by simp
      then show ?thesis by blast
    next
      case 2
      then obtain ps ss where "xs = ps @ t @ ss" using Cons.IH by blast
      then have "x # xs = (x # ps) @ t @ ss" by simp
      then show ?thesis by blast
    qed
  next
    assume "\<exists>ps ss. x # xs = ps @ t @ ss"
    then obtain ps ss where eq: "x # xs = ps @ t @ ss" by blast
    show "includesStr (x # xs) t"
    proof (cases ps)
      case Nil
      with eq have "startsWith (x # xs) t" by (auto simp: startsWith_iff)
      then show ?thesis by simp
    next
      case (Cons p ps')
      with eq have "xs = ps' @ t @ ss" by simp
      then have "includesStr xs t" using Cons.IH by blast
      then show ?thesis by simp
    qed
  qed
qed

lemma includesStr_appendD1: "includesStr s (a @ b) \<Longrightarrow> includesStr s a"
  by (metis append.assoc includesStr_iff)

lemma includesStr_appendD2: "includesStr s (a @ b) \<Longrightarrow> includesStr s b"
  by (metis append.assoc includesStr_iff)

lemma toLowerCase_append: "toLowerCase (a @ b) = toLowerCase a @ toLowerCase b"
  by (simp add: toLowerCase_def)

lemma includesStr_lower:
  "f = p @ m @ q \<Longrightarrow> toLowerCase m = t \<Longrightarrow> includesStr (toLowerCase f) t"
  unfolding includesStr_iff by (auto simp: toLowerCase_append)

lemma thundery_thunder: "includesStr s ''thundery'' \<Longrightarrow> includesStr s ''thunder''"
  using includesStr_appendD1 [of s "''thunder''" "''y''"] by simp

lemma heavy_rain_rain: "includesStr s ''heavy rain'' \<Longrightarrow> includesStr s ''rain''"
  using includesStr_appendD2 [of s "''heavy ''" "''rain''"] by simp

lemma heavy_shower_shower: "includesStr s ''heavy shower'' \<Longrightarrow> includesStr s ''shower''"
  using includesStr_appendD2 [of s "''heavy ''" "''shower''"] by simp

lemma partly_cloudy_cloudy: "includesStr s ''partly cloudy'' \<Longrightarrow> includesStr s ''cloudy''"
  using includesStr_appendD2 [of s "''partly ''" "''cloudy''"] by simp

subsection \<open>Score and rating\<close>

lemma score_bounds:
  "0 \<le> calculateSuitabilityScore w t h \<and> calculateSuitabilityScore w t h \<le> 10"
  unfolding calculateSuitabilityScore_def Let_def by linarith

lemma score_thundery_worst:
  assumes "includesStr w ''thundery''" and "\<not> includesStr w ''fair''"
    and "\<not> includesStr w ''sunny''" and "\<not> includesStr w ''cloudy''"
    and "\<not> includesStr w ''rain''" and "\<not> includesStr w ''shower''"
    and "t > 32" and "h > 85"
  shows "calculateSuitabilityScore w t h = 0"
proof -
  have "\<not> includesStr w ''partly cloudy''"
    using assms(4) partly_cloudy_cloudy by blast
  with assms show ?thesis
    by (simp add: calculateSuitabilityScore_def)
qed

lemma score_fair_best:
  assumes "includesStr w ''fair''" and "24 \<le> t" and "t \<le> 32" and "h < 70"
  shows "calculateSuitabilityScore w t h = 10"
  using assms by (simp add: calculateSuitabilityScore_def)

text \<open>
  Claim C5, as stated, fails in its worst case. The rules of the condition chain are tried
  in order and the first match wins, so a text that contains thundery and no rain or
  shower term, but also a term of an earlier rule, does not reach the thundery rule: with
  temperature above 32 and humidity above 85 the text cloudy thundery scores
  5 + 1 - 1 - 1 = 4, not 0.
\<close>

theorem thundery_worst_case_counterexample:
  "includesStr ''cloudy thundery'' ''thundery''
   \<and> \<not> includesStr ''cloudy thundery'' ''rain''
   \<and> \<not> includesStr ''cloudy thundery'' ''shower''
   \<and> (33::real) > 32 \<and> (90::real) > 85
   \<and> calculateSuitabilityScore ''cloudy thundery'' 33 90 = 4
   \<and> calculateSuitabilityScore ''cloudy thundery'' 33 90 \<noteq> 0"
  by code_simp

text \<open>
  Claim C5, amended. For every condition text, high temperature and humidity the
  suitability score is an integer between 0 and 10. When the thundery rule is the one
  that applies (the text contains thundery and no term of a rule before it: neither fair,
  sunny, cloudy, rain nor shower), the temperature is above 32 and the humidity above 85,
  the sum 5 - 5 - 1 - 1 is clamped to 0 and does not go negative; the best case, a fair
  day of 24 to 32 degrees with humidity below 70, is exactly 10.
\<close>

theorem score_in_range:
  "0 \<le> calculateSuitabilityScore w t h \<and> calculateSuitabilityScore w t h \<le> 10
   \<and> (includesStr w ''thundery'' \<and> \<not> includesStr w ''fair''
        \<and> \<not> includesStr w ''sunny'' \<and> \<not> includesStr w ''cloudy''
        \<and> \<not> includesStr w ''rain'' \<and> \<not> includesStr w ''shower''
        \<and> t > 32 \<and> h > 85 \<longrightarrow> calculateSuitabilityScore w t h = 0)
   \<and> (includesStr w ''fair'' \<and> 24 \<le> t \<and> t \<le> 32 \<and> h < 70
        \<longrightarrow> calculateSuitabilityScore w t h = 10)"
  using score_bounds [of w t h] score_thundery_worst [of w t h] score_fair_best [of w t h]
  by blast

theorem score_in_range_witness:
  "calculateSuitabilityScore ''thundery'' 33 90 = 0 \<and> calculateSuitabilityScore ''fair'' 28 60 = 10"
  using score_in_range [of "''thundery''" 33 90] score_in_range [of "''fair''" 28 60]
  by simp

text \<open>
  Claim C6. The rating is Excellent exactly when the score is at least 8, Good exactly
  when it is 6 or 7, Fair exactly when it is 4 or 5, and Poor exactly when it is below 4.
\<close>

theorem rating_thresholds:
  "(getCleanupSuitability f t h = ''Excellent'')
      = (8 \<le> calculateSuitabilityScore (toLowerCase f) t h)
   \<and> (getCleanupSuitability f t h = ''Good'')
      = (6 \<le> calculateSuitabilityScore (toLowerCase f) t h
         \<and> calculateSuitabilityScore (toLowerCase f) t h < 8)
   \<and> (getCleanupSuitability f t h = ''Fair'')
      = (4 \<le> calculateSuitabilityScore (toLowerCase f) t h
         \<and> calculateSuitabilityScore (toLowerCase f) t h < 6)
   \<and> (getCleanupSuitability f t h = ''Poor'')
      = (calculateSuitabilityScore (toLowerCase f) t h < 4)"
  by (auto simp: getCleanupSuitability_def Let_def)

text \<open>The scores 8, 7, 5, 4 and 3 give Excellent, Good, Fair, Fair and Poor.\<close>

theorem rating_thresholds_witness:
  "getCleanupSuitability ''Fair'' 20 75 = ''Excellent''
   \<and> getCleanupSuitability ''Partly Cloudy'' 20 75 = ''Good''
   \<and> getCleanupSuitability ''Windy'' 20 75 = ''Fair''
   \<and> getCleanupSuitability ''Windy'' 33 75 = ''Fair''
   \<and> getCleanupSuitability ''Light Rain'' 28 75 = ''Poor''"
proof -
  have s8: "calculateSuitabilityScore (toLowerCase ''Fair'') 20 75 = 8" by code_simp
  have s7: "calculateSuitabilityScore (toLowerCase ''Partly Cloudy'') 20 75 = 7" by code_simp
  have s5: "calculateSuitabilityScore (toLowerCase ''Windy'') 20 75 = 5" by code_simp
  have s4: "calculateSuitabilityScore (toLowerCase ''Windy'') 33 75 = 4" by code_simp
  have s3: "calculateSuitabilityScore (toLowerCase ''Light Rain'') 28 75 = 3" by code_simp
  show ?thesis
    using rating_thresholds [of "''Fair''" 20 75] rating_thresholds [of "''Partly Cloudy''" 20 75]
      rating_thresholds [of "''Windy''" 20 75] rating_thresholds [of "''Windy''" 33 75]
      rating_thresholds [of "''Light Rain''" 28 75]
    unfolding s8 s7 s5 s4 s3 by simp
qed

subsection \<open>Icon and recommendation\<close>

text \<open>
  Claim C8. A condition text that contains a thunder term, in any letter case, gets the
  lightning icon, whatever else it contains: the thunder check comes before the rain and
  shower checks, so the result is neither the light-rain nor the heavy-rain icon.
\<close>

theorem thunder_before_rain:
  assumes "f = p @ m @ q" and "toLowerCase m = ''thunder''"
  shows "getWeatherIcon f = ''fa-bolt'' \<and> getWeatherIcon f \<noteq> ''fa-cloud-drizzle''
         \<and> getWeatherIcon f \<noteq> ''fa-cloud-rain''"
proof -
  have "includesStr (toLowerCase f) ''thunder''"
    using assms by (rule includesStr_lower)
  then show ?thesis by (simp add: getWeatherIcon_def)
qed

theorem thunder_before_rain_witness:
  "getWeatherIcon ''Thundery Showers'' = ''fa-bolt''
   \<and> includesStr (toLowerCase ''Thundery Showers'') ''shower''"
proof -
  have a: "''Thundery Showers'' = [] @ ''Thunder'' @ ''y Showers''" by simp
  have b: "toLowerCase ''Thunder'' = ''thunder''" by code_simp
  have c: "includesStr (toLowerCase ''Thundery Showers'') ''shower''" by code_simp
  show ?thesis using thunder_before_rain [OF a b] c by simp
qed

text \<open>
  Claim C9. The two mappers order their cloud rules differently. For a text whose lower
  case contains cloudy and none of the terms checked earlier, the icon mapper returns the
  cloud icon whether or not partly cloudy occurs (its cloudy check comes first), while the
  recommendation mapper checks partly cloudy first and returns the higher tier for it and
  the mild tier for cloudy alone.
\<close>

theorem cloudy_rule_orders:
  assumes "w = toLowerCase f"
    and "includesStr w ''cloudy''"
    and "\<not> includesStr w ''thunder''" and "\<not> includesStr w ''rain''"
    and "\<not> includesStr w ''shower''" and "\<not> includesStr w ''fair''"
    and "\<not> includesStr w ''sunny''"
  shows "getWeatherIcon f = ''fa-cloud''
         \<and> getCleanupRecommendation f =
             (if includesStr w ''partly cloudy'' then ''Great conditions!''
              else ''Good for cleanup!'')"
proof -
  have "\<not> includesStr w ''thundery''" "\<not> includesStr w ''heavy rain''"
    "\<not> includesStr w ''heavy shower''"
    using assms thundery_thunder heavy_rain_rain heavy_shower_shower by blast+
  with assms show ?thesis
    by (simp add: getWeatherIcon_def getCleanupRecommendation_def)
qed

theorem cloudy_rule_orders_witness:
  "getWeatherIcon ''Cloudy'' = ''fa-cloud'' \<and> getWeatherIcon ''Partly Cloudy'' = ''fa-cloud''
   \<and> getCleanupRecommendation ''Partly Cloudy'' = ''Great conditions!''
   \<and> getCleanupRecommendation ''Cloudy'' = ''Good for cleanup!''"
proof -
  have c: "toLowerCase ''Cloudy'' = ''cloudy''" by code_simp
  have p: "toLowerCase ''Partly Cloudy'' = ''partly cloudy''" by code_simp
  show ?thesis
    using cloudy_rule_orders [of "''cloudy''" "''Cloudy''"]
      cloudy_rule_orders [of "''partly cloudy''" "''Partly Cloudy''"]
    unfolding c p by simp
qed

subsection \<open>The pipeline under failing feeds\<close>

lemma tryCatch_simps [simp]:
  "tryCatch (Inl e) handler = handler e" "tryCatch (Inr v) handler = Inr v"
  by (simp_all add: tryCatch_def)


lemma current_unavailable:
  "unavailable r2 \<Longrightarrow> \<exists>e. getCurrentWeather now r2 rt = Inl e"
  by (auto simp: unavailable_def getCurrentWeather_def split: response.splits)






lemma update_on_error:
  "getCurrentWeather now r2 rt = Inl e \<Longrightarrow>
   updateWeatherDisplay h now r2 rt r4 d = Inr (renderFallbackWeather d)"
  by (simp add: updateWeatherDisplay_def)







text \<open>
  Claim C7. When all three feeds are unavailable, the run returns normally: the page is
  the one given with the fallback triple (the default temperature, the sun icon and the
  neutral message) written to the current-conditions display, and its forecast container
  is the one it had.
\<close>

theorem total_failure_fallback:
  assumes "unavailable r2" and "unavailable rt" and "unavailable r4"
  shows "updateWeatherDisplay h now r2 rt r4 d
           = Inr (renderWeather \<lparr>temp = ''28'' @ degreesC, icon = ''fa-sun'',
                                  desc = ''Check local weather!'', condition = None\<rparr> d)
         \<and> forecastContainer
             (renderWeather \<lparr>temp = ''28'' @ degreesC, icon = ''fa-sun'',
                             desc = ''Check local weather!'', condition = None\<rparr> d)
           = forecastContainer d"
proof -
  obtain e where "getCurrentWeather now r2 rt = Inl e"
    using assms(1) current_unavailable by blast
  then have "updateWeatherDisplay h now r2 rt r4 d = Inr (renderFallbackWeather d)"
    by (rule update_on_error)
  then show ?thesis by (simp add: renderFallbackWeather_def renderWeather_def)
qed

theorem total_failure_fallback_witness:
  "updateWeatherDisplay exampleHost ''2024-01-02T00:00:00.000Z''
     (Response False None) (Response False None) (Response False None) examplePage
   = Inr \<lparr>weatherTemp = Some (''28'' @ degreesC), weatherIcon = Some ''fas fa-sun weather-icon'',
          weatherDesc = Some ''Check local weather!'', weatherWidget = True,
          forecastContainer = None\<rparr>"
  using total_failure_fallback [of "Response False None" "Response False None"
      "Response False None" exampleHost "''2024-01-02T00:00:00.000Z''" examplePage]
  by (simp add: unavailable_def renderWeather_def examplePage_def)

subsection \<open>Selections of the normalizer\<close>

text \<open>
  Claim C2, as stated, fails. With the readings of S43, S07 and S100 in this order, the
  selected temperature is that of S43, not that of S07.
\<close>

theorem station_priority_counterexample:
  "temperature True (Some [\<lparr>readings = [\<lparr>station_id = ''S43'', reading_value = 30\<rparr>,
                                           \<lparr>station_id = ''S07'', reading_value = 27\<rparr>,
                                           \<lparr>station_id = ''S100'', reading_value = 25\<rparr>]\<rparr>])
     = Inr (''30'' @ degreesC)
   \<and> temperature True (Some [\<lparr>readings = [\<lparr>station_id = ''S43'', reading_value = 30\<rparr>,
                                           \<lparr>station_id = ''S07'', reading_value = 27\<rparr>,
                                           \<lparr>station_id = ''S100'', reading_value = 25\<rparr>]\<rparr>])
     \<noteq> Inr (''27'' @ degreesC)"
  by code_simp

lemma find_first_match:
  "\<forall>x\<in>set pre. \<not> P x \<Longrightarrow> P r \<Longrightarrow> find P (pre @ r # post) = Some r"
  by (induction pre) auto

lemma find_no_match: "\<forall>x\<in>set xs. \<not> P x \<Longrightarrow> find P xs = None"
  by (induction xs) auto

text \<open>
  Claim C2, amended. The selected temperature is the rounded value of the first reading,
  in list order, whose station is S07 or S43: that of S07 when an S07 reading precedes
  every S43 reading, that of S43 when an S43 reading precedes every S07 reading, in
  particular when only S43 is present. When neither station is present, the default
  display value is used.
\<close>

theorem station_first_match:
  "(rs = pre @ r # post
      \<and> (\<forall>x\<in>set pre. station_id x \<noteq> ''S07'' \<and> station_id x \<noteq> ''S43'')
      \<and> (station_id r = ''S07'' \<or> station_id r = ''S43'')
     \<longrightarrow> temperature True (Some (\<lparr>readings = rs\<rparr> # others))
           = Inr (showInt (mathRound (reading_value r)) @ degreesC))
   \<and> ((\<forall>x\<in>set rs. station_id x \<noteq> ''S07'' \<and> station_id x \<noteq> ''S43'')
     \<longrightarrow> temperature True (Some (\<lparr>readings = rs\<rparr> # others)) = Inr (''28'' @ degreesC))"
proof (intro conjI impI)
  assume a: "rs = pre @ r # post
      \<and> (\<forall>x\<in>set pre. station_id x \<noteq> ''S07'' \<and> station_id x \<noteq> ''S43'')
      \<and> (station_id r = ''S07'' \<or> station_id r = ''S43'')"
  have "find (\<lambda>r. station_id r = ''S07'' \<or> station_id r = ''S43'') (pre @ r # post) = Some r"
    by (rule find_first_match) (use a in auto)
  with a have "eastTemp rs = Some r" by (simp add: eastTemp_def)
  then show "temperature True (Some (\<lparr>readings = rs\<rparr> # others))
           = Inr (showInt (mathRound (reading_value r)) @ degreesC)"
    by (simp add: temperature_def)
next
  assume a: "\<forall>x\<in>set rs. station_id x \<noteq> ''S07'' \<and> station_id x \<noteq> ''S43''"
  have "find (\<lambda>r. station_id r = ''S07'' \<or> station_id r = ''S43'') rs = None"
    by (rule find_no_match) (use a in auto)
  then have "eastTemp rs = None" by (simp add: eastTemp_def)
  then show "temperature True (Some (\<lparr>readings = rs\<rparr> # others)) = Inr (''28'' @ degreesC)"
    by (simp add: temperature_def defaultTemperature_def)
qed

theorem station_first_match_witness:
  "temperature True (Some [\<lparr>readings = [\<lparr>station_id = ''S100'', reading_value = 25\<rparr>,
                                           \<lparr>station_id = ''S07'', reading_value = 27\<rparr>,
                                           \<lparr>station_id = ''S43'', reading_value = 30\<rparr>]\<rparr>])
     = Inr (''27'' @ degreesC)
   \<and> temperature True (Some [\<lparr>readings = [\<lparr>station_id = ''S100'', reading_value = 25\<rparr>,
                                           \<lparr>station_id = ''S43'', reading_value = 30\<rparr>]\<rparr>])
     = Inr (''30'' @ degreesC)
   \<and> temperature True (Some [\<lparr>readings = [\<lparr>station_id = ''S100'', reading_value = 25\<rparr>]\<rparr>])
     = Inr (''28'' @ degreesC)"
proof -
  let ?s100 = "\<lparr>station_id = ''S100'', reading_value = 25\<rparr>"
  let ?s07 = "\<lparr>station_id = ''S07'', reading_value = 27\<rparr>"
  let ?s43 = "\<lparr>station_id = ''S43'', reading_value = 30\<rparr>"
  have r27: "showInt (mathRound 27) = ''27''" by code_simp
  have r30: "showInt (mathRound 30) = ''30''" by code_simp
  have a: "temperature True (Some [\<lparr>readings = [?s100, ?s07, ?s43]\<rparr>]) = Inr (''27'' @ degreesC)"
    using station_first_match [of "[?s100, ?s07, ?s43]" "[?s100]" ?s07 "[?s43]" "[]"] r27
    by simp
  have b: "temperature True (Some [\<lparr>readings = [?s100, ?s43]\<rparr>]) = Inr (''30'' @ degreesC)"
    using station_first_match [of "[?s100, ?s43]" "[?s100]" ?s43 "[]" "[]"] r30
    by simp
  have c: "temperature True (Some [\<lparr>readings = [?s100]\<rparr>]) = Inr (''28'' @ degreesC)"
    using station_first_match [of "[?s100]" "[]" ?s100 "[]" "[]"]
    by simp
  from a b c show ?thesis by simp
qed

text \<open>
  Claim C3. The area selection tests both substrings in one pass over the list, so an
  entry that contains east and precedes the Pasir Ris entry is selected in its place.
\<close>

theorem east_shadows_pasir_ris:
  "pasirRisForecast [\<lparr>area = ''Jurong East'', forecast = ''Thundery Showers''\<rparr>,
                     \<lparr>area = ''Pasir Ris'', forecast = ''Fair''\<rparr>]
     = Some \<lparr>area = ''Jurong East'', forecast = ''Thundery Showers''\<rparr>"
  by code_simp

text \<open>
  Claim C4. The batch selection takes the first batch, in list order, whose timestamp is
  not after now: of two past batches in ascending order it returns the earlier one, though
  the later one is not in the future either.
\<close>

theorem first_past_batch_not_latest:
  "latestForecast ''2024-01-02T00:00:00.000Z''
     [\<lparr>timestamp = ''2024-01-01T10:00:00+08:00'', forecasts = []\<rparr>,
      \<lparr>timestamp = ''2024-01-01T12:00:00+08:00'', forecasts = []\<rparr>]
     = Some \<lparr>timestamp = ''2024-01-01T10:00:00+08:00'', forecasts = []\<rparr>
   \<and> strLe ''2024-01-01T12:00:00+08:00'' ''2024-01-02T00:00:00.000Z''
   \<and> \<not> strLe ''2024-01-01T12:00:00+08:00'' ''2024-01-01T10:00:00+08:00''"
  by code_simp

subsection \<open>Daily outlook\<close>

lemma dailyOutlook_rating:
  "cleanupSuitability (dailyOutlook h d)
     = getCleanupSuitability (day_forecast d) (temperature_high d) (relative_humidity_high d)"
  by (simp add: dailyOutlook_def)

lemma forecast_ratings:
  "map_sum id (map cleanupSuitability)
     (getWeatherForecast h (Response True (Some (\<lparr>day_forecasts = ds\<rparr> # others))))
   = Inr (map (\<lambda>d. getCleanupSuitability (day_forecast d) (temperature_high d)
                       (relative_humidity_high d)) (take 5 ds))"
  by (simp add: getWeatherForecast_def comp_def dailyOutlook_rating)

lemma same_highs_same_ratings:
  assumes "list_all2 (\<lambda>a b. day_forecast a = day_forecast b
                      \<and> temperature_high a = temperature_high b
                      \<and> relative_humidity_high a = relative_humidity_high b) ds ds'"
  shows "map (\<lambda>d. getCleanupSuitability (day_forecast d) (temperature_high d)
                     (relative_humidity_high d)) (take 5 ds)
       = map (\<lambda>d. getCleanupSuitability (day_forecast d) (temperature_high d)
                     (relative_humidity_high d)) (take 5 ds')"
proof -
  have "list_all2 (\<lambda>a b. day_forecast a = day_forecast b
                      \<and> temperature_high a = temperature_high b
                      \<and> relative_humidity_high a = relative_humidity_high b)
          (take 5 ds) (take 5 ds')"
    using assms by (rule list_all2_takeI)
  then show ?thesis
    by (induction rule: list_all2_induct) simp_all
qed

text \<open>
  Claim C10. The rating of each day of the outlook is the suitability computed from that
  day's condition text, its high temperature and its high relative humidity: the ratings
  of a forecast are those values for the first five days. Hence two day lists that agree
  on these three fields day by day get the same ratings, whatever their dates, low
  temperatures, low humidities and winds are, and whatever the host's formatting is.
\<close>

theorem rating_from_highs_only:
  "cleanupSuitability (dailyOutlook h d)
     = getCleanupSuitability (day_forecast d) (temperature_high d) (relative_humidity_high d)
   \<and> map_sum id (map cleanupSuitability)
       (getWeatherForecast h (Response True (Some (\<lparr>day_forecasts = ds\<rparr> # others))))
     = Inr (map (\<lambda>d. getCleanupSuitability (day_forecast d) (temperature_high d)
                         (relative_humidity_high d)) (take 5 ds))
   \<and> (list_all2 (\<lambda>a b. day_forecast a = day_forecast b
                      \<and> temperature_high a = temperature_high b
                      \<and> relative_humidity_high a = relative_humidity_high b) ds ds'
      \<longrightarrow> map_sum id (map cleanupSuitability)
            (getWeatherForecast h (Response True (Some (\<lparr>day_forecasts = ds\<rparr> # others))))
          = map_sum id (map cleanupSuitability)
            (getWeatherForecast h' (Response True (Some (\<lparr>day_forecasts = ds'\<rparr> # others')))))"
  using dailyOutlook_rating [of h d] forecast_ratings [of h ds others]
    forecast_ratings [of h' ds' others'] same_highs_same_ratings [of ds ds']
  by simp

text \<open>
  Four days with the condition Cloudy: the second differs from the first in its date, low
  temperature, low humidity and wind and keeps the rating; the third differs in its high
  temperature only and the fourth in its high humidity only, and both change the rating.
\<close>

theorem rating_from_highs_only_witness:
  "map_sum id (map cleanupSuitability)
     (getWeatherForecast exampleHost (Response True (Some [\<lparr>day_forecasts =
        [\<lparr>day_date = ''2024-01-02'', day_forecast = ''Cloudy'', temperature_high = 31,
          temperature_low = 25, relative_humidity_high = 65, relative_humidity_low = 55,
          day_wind = Some 20\<rparr>,
         \<lparr>day_date = ''2024-01-03'', day_forecast = ''Cloudy'', temperature_high = 31,
          temperature_low = 19, relative_humidity_high = 65, relative_humidity_low = 90,
          day_wind = None\<rparr>,
         \<lparr>day_date = ''2024-01-02'', day_forecast = ''Cloudy'', temperature_high = 33,
          temperature_low = 25, relative_humidity_high = 65, relative_humidity_low = 55,
          day_wind = Some 20\<rparr>,
         \<lparr>day_date = ''2024-01-02'', day_forecast = ''Cloudy'', temperature_high = 31,
          temperature_low = 25, relative_humidity_high = 90, relative_humidity_low = 55,
          day_wind = Some 20\<rparr>]\<rparr>])))
   = Inr [''Excellent'', ''Excellent'', ''Good'', ''Good'']
   \<and> map_sum id (map cleanupSuitability)
     (getWeatherForecast exampleHost (Response True (Some [\<lparr>day_forecasts =
        [\<lparr>day_date = ''2024-01-02'', day_forecast = ''Cloudy'', temperature_high = 31,
          temperature_low = 25, relative_humidity_high = 65, relative_humidity_low = 55,
          day_wind = Some 20\<rparr>]\<rparr>])))
   = map_sum id (map cleanupSuitability)
     (getWeatherForecast exampleHost (Response True (Some [\<lparr>day_forecasts =
        [\<lparr>day_date = ''2024-01-03'', day_forecast = ''Cloudy'', temperature_high = 31,
          temperature_low = 19, relative_humidity_high = 65, relative_humidity_low = 90,
          day_wind = None\<rparr>]\<rparr>])))"
proof -
  let ?a = "\<lparr>day_date = ''2024-01-02'', day_forecast = ''Cloudy'', temperature_high = 31,
          temperature_low = 25, relative_humidity_high = 65, relative_humidity_low = 55,
          day_wind = Some 20\<rparr>"
  let ?b = "\<lparr>day_date = ''2024-01-03'', day_forecast = ''Cloudy'', temperature_high = 31,
          temperature_low = 19, relative_humidity_high = 65, relative_humidity_low = 90,
          day_wind = None\<rparr>"
  let ?c = "\<lparr>day_date = ''2024-01-02'', day_forecast = ''Cloudy'', temperature_high = 33,
          temperature_low = 25, relative_humidity_high = 65, relative_humidity_low = 55,
          day_wind = Some 20\<rparr>"
  let ?d = "\<lparr>day_date = ''2024-01-02'', day_forecast = ''Cloudy'', temperature_high = 31,
          temperature_low = 25, relative_humidity_high = 90, relative_humidity_low = 55,
          day_wind = Some 20\<rparr>"
  have e: "getCleanupSuitability ''Cloudy'' 31 65 = ''Excellent''" by code_simp
  have t: "getCleanupSuitability ''Cloudy'' 33 65 = ''Good''" by code_simp
  have u: "getCleanupSuitability ''Cloudy'' 31 90 = ''Good''" by code_simp
  have four: "map_sum id (map cleanupSuitability)
      (getWeatherForecast exampleHost (Response True (Some [\<lparr>day_forecasts = [?a, ?b, ?c, ?d]\<rparr>])))
      = Inr [''Excellent'', ''Excellent'', ''Good'', ''Good'']"
    using rating_from_highs_only [of exampleHost ?a "[?a, ?b, ?c, ?d]" "[]"] e t u
    by simp
  have same: "map_sum id (map cleanupSuitability)
      (getWeatherForecast exampleHost (Response True (Some [\<lparr>day_forecasts = [?a]\<rparr>])))
      = map_sum id (map cleanupSuitability)
      (getWeatherForecast exampleHost (Response True (Some [\<lparr>day_forecasts = [?b]\<rparr>])))"
  proof -
    have la: "list_all2 (\<lambda>a b. day_forecast a = day_forecast b
                          \<and> temperature_high a = temperature_high b
                          \<and> relative_humidity_high a = relative_humidity_high b) [?a] [?b]"
      by simp
    show ?thesis
      using rating_from_highs_only [of exampleHost ?a "[?a]" "[]" "[?b]" exampleHost "[]"] la
      by blast
  qed
  from four same show ?thesis by simp
qed

end
